theory Spec2Isabelle
  imports Main "HOL-Library.Word"
begin

section \<open>The Canteen hook: data model\<close>

text \<open>
  The hook \<open>useCanteenWagmi\<close> keeps five pieces of React state and reads a handful of
  values from other hooks at every render. The state is a record that each handler
  takes and returns; the values read from the other hooks are the environment.
  A JavaScript number that holds an integer is written as the natural number it
  equals. The refresh trigger starts at zero and grows by one at a time, where a number
  counts exactly.

  Modelled from the spec: the ABI of the contract is not among the sources. The spec
  gives the counts and the replica and deployed counts of an image as non-negative
  integers read from the ledger; they are taken as \<open>uint256\<close>, the integer type of
  such a contract, and are 256-bit words here.
\<close>

record image_entry =
  name :: string
  replicas :: nat
  deployed :: nat
  active :: bool

record hook_state =
  message :: string
  isProcessing :: bool
  members :: "string list"
  images :: "image_entry list"
  refreshTrigger :: nat

record deployed_contract =
  address :: string
  abi :: string

datatype provider = Provider

type_synonym encryption = "int \<Rightarrow> string"

text \<open>
  \<open>membersCount\<close> and \<open>imagesCount\<close> are \<open>bigint | undefined\<close> in the source;
  \<open>None\<close> is \<open>undefined\<close>. \<open>writeContractAsync\<close> is tested for truthiness only, so
  it is a flag here.
\<close>

record environment =
  canteenContract :: "deployed_contract option"
  membersCount :: "256 word option"
  imagesCount :: "256 word option"
  ethersReadonlyProvider :: "provider option"
  writeContractAsync :: bool
  encryptionContext :: encryption

text \<open>
  A value that a call throws or a promise rejects with: \<open>null\<close>/\<open>undefined\<close>, or an
  object whose \<open>message\<close> property is a string or is missing. Reading a property of
  \<open>null\<close>/\<open>undefined\<close> throws a \<open>TypeError\<close> whose wording is the engine's:
  \<open>Nullish\<close> carries that wording.
\<close>

datatype thrown = Nullish string | ErrorObject "string option"

text \<open>
  \<open>Number(n)\<close> of a \<open>bigint\<close> is the double nearest to \<open>n\<close>, ties going to the
  even significand. A double has 53 significant bits: \<open>shift_for n\<close> is the number
  of low bits of \<open>n\<close> that do not fit, \<open>q\<close> the 53 bits that do, \<open>r\<close> what is cut
  off. Every natural number below \<open>2^53 = 9007199254740992\<close> is its own double, and a
  \<open>uint256\<close> is far below the largest double.
\<close>

function shift_for :: "nat \<Rightarrow> nat" where
  "shift_for n = (if n < 9007199254740992 then 0 else Suc (shift_for (n div 2)))"
  by pat_completeness auto
termination
  by (relation "measure (\<lambda>n. n)") auto

declare shift_for.simps [simp del]

definition double_of_nat :: "nat \<Rightarrow> nat" where
  "double_of_nat n =
     (let e = shift_for n; q = n div 2 ^ e; r = n mod 2 ^ e
      in if 2 ^ e < 2 * r \<or> (2 * r = 2 ^ e \<and> odd q) then (q + 1) * 2 ^ e else q * 2 ^ e)"

definition Number :: "256 word \<Rightarrow> nat" where
  "Number n = double_of_nat (unat n)"

text \<open>
  \<open>i++\<close> on a number: the sum \<open>i + 1\<close>, rounded to a double. At \<open>2^53\<close> the sum
  rounds back to \<open>2^53\<close>.
\<close>

definition js_increment :: "nat \<Rightarrow> nat" where
  "js_increment i = double_of_nat (i + 1)"

text \<open>JavaScript truthiness of \<open>bigint | undefined\<close>: \<open>undefined\<close> and \<open>0n\<close> are falsy.\<close>

fun falsy_count :: "256 word option \<Rightarrow> bool" where
  "falsy_count None = True"
| "falsy_count (Some n) = (n = 0)"

section \<open>Calls to the outside\<close>

text \<open>
  The argument of \<open>writeContractAsync\<close>. An argument of the contract call is a string,
  a \<open>bigint\<close> or a byte blob (what a ciphertext would be).
\<close>

datatype abi_value = AbiString string | AbiBigInt int | AbiBytes string

record write_request =
  to_address :: string
  with_abi :: string
  functionName :: string
  args :: "abi_value list"

section \<open>Reconciliation passes\<close>

text \<open>
  The reads of a pass go through an ethers \<open>Contract\<close>. Each of its calls answers with
  a value or throws. Transport failures differ from call to call, so the answer to the
  detail call is given per loop iteration as well as per key. Every call the hook makes
  to the outside is recorded as a \<open>call\<close>; \<open>Console_error\<close> keeps the fixed part of
  the logged text. The hook takes \<open>refetchMembersCount\<close> from \<open>useReadContract\<close> and
  never calls it; the constructor is there to say so.
\<close>

record member_reads =
  members_at :: "nat \<Rightarrow> thrown + string"
  getMemberDetails :: "nat \<Rightarrow> string \<Rightarrow> thrown + (string \<times> bool \<times> string)"

record image_reads =
  images_at :: "nat \<Rightarrow> thrown + string"
  getImageDetails :: "nat \<Rightarrow> string \<Rightarrow> thrown + (256 word \<times> 256 word \<times> bool)"

datatype call =
    Call_members nat
  | Call_getMemberDetails string
  | Call_images nat
  | Call_getImageDetails string
  | Console_error string
  | Call_writeContractAsync write_request
  | Call_refetchImagesCount
  | Call_refetchMembersCount

text \<open>
  The body of the \<open>for\<close> loop of \<open>fetchMembers\<close>: the \<open>try\<close> block with its
  \<open>catch\<close>. It returns the entry pushed on \<open>membersList\<close>, if any, and the calls made.
\<close>

definition fetchMembers_body :: "member_reads \<Rightarrow> nat \<Rightarrow> string option \<times> call list" where
  "fetchMembers_body c i =
     (case members_at c i of
        Inl err \<Rightarrow> (None, [Call_members i, Console_error ''Error fetching member''])
      | Inr memberHost \<Rightarrow>
          (case getMemberDetails c i memberHost of
             Inl err \<Rightarrow>
               (None, [Call_members i, Call_getMemberDetails memberHost,
                       Console_error ''Error fetching member''])
           | Inr (imageName, isActive, encryptedMemory) \<Rightarrow>
               (if isActive then Some memberHost else None,
                [Call_members i, Call_getMemberDetails memberHost])))"

text \<open>
  The \<open>for\<close> loop. Its counter is a number, so \<open>i++\<close> stops growing at \<open>2^53\<close>,
  and with a count above \<open>2^53\<close> the loop never ends: the loop is a partial function,
  and \<open>None\<close> is a loop that does not end.
\<close>

partial_function (option) fetchMembers_loop ::
  "member_reads \<Rightarrow> nat \<Rightarrow> nat \<Rightarrow> string list \<Rightarrow> call list
     \<Rightarrow> (string list \<times> call list) option" where
  "fetchMembers_loop c i count membersList log =
     (if i < count then
        (case fetchMembers_body c i of
           (None, calls) \<Rightarrow>
             fetchMembers_loop c (js_increment i) count membersList (log @ calls)
         | (Some memberHost, calls) \<Rightarrow>
             fetchMembers_loop c (js_increment i) count (membersList @ [memberHost])
               (log @ calls))
      else Some (membersList, log))"

text \<open>
  What one run of the async function does before it publishes:
  \<open>NoFetch\<close> is the early \<open>return\<close> of the guard, \<open>Aborted\<close> is a run whose
  \<open>import("ethers")\<close> or \<open>Contract\<close> construction fails (the function rejects there and
  nothing is published), \<open>Unfinished\<close> is a run whose loop never ends, \<open>Fetched\<close>
  carries the finished list and the calls made.
\<close>

datatype 'a pass = NoFetch | Aborted | Unfinished | Fetched "'a list" "call list"

definition fetchMembers :: "environment \<Rightarrow> member_reads option \<Rightarrow> string pass" where
  "fetchMembers env ethers =
     (if canteenContract env = None \<or> falsy_count (membersCount env)
         \<or> ethersReadonlyProvider env = None
      then NoFetch
      else (case (membersCount env, ethers) of
              (None, _) \<Rightarrow> NoFetch
            | (Some n, None) \<Rightarrow> Aborted
            | (Some n, Some contract) \<Rightarrow>
                (case fetchMembers_loop contract 0 (Number n) [] [] of
                   None \<Rightarrow> Unfinished
                 | Some (membersList, log) \<Rightarrow> Fetched membersList log)))"

text \<open>The last statement of the function, \<open>setMembers(membersList)\<close>.\<close>

fun setMembers_of :: "string pass \<Rightarrow> hook_state \<Rightarrow> hook_state" where
  "setMembers_of (Fetched membersList log) st = st\<lparr>members := membersList\<rparr>"
| "setMembers_of NoFetch st = st"
| "setMembers_of Aborted st = st"
| "setMembers_of Unfinished st = st"

text \<open>
  The body of the loop of \<open>fetchImages\<close>. The entry pushed is built from the
  details, with \<open>active: true\<close> written out as the source does.
\<close>

definition fetchImages_body :: "image_reads \<Rightarrow> nat \<Rightarrow> image_entry option \<times> call list" where
  "fetchImages_body c i =
     (case images_at c i of
        Inl err \<Rightarrow> (None, [Call_images i, Console_error ''Error fetching image''])
      | Inr imageName \<Rightarrow>
          (case getImageDetails c i imageName of
             Inl err \<Rightarrow>
               (None, [Call_images i, Call_getImageDetails imageName,
                       Console_error ''Error fetching image''])
           | Inr (details0, details1, isActive) \<Rightarrow>
               (if isActive
                then Some \<lparr>name = imageName, replicas = Number details0,
                           deployed = Number details1, active = True\<rparr>
                else None,
                [Call_images i, Call_getImageDetails imageName])))"

partial_function (option) fetchImages_loop ::
  "image_reads \<Rightarrow> nat \<Rightarrow> nat \<Rightarrow> image_entry list \<Rightarrow> call list
     \<Rightarrow> (image_entry list \<times> call list) option" where
  "fetchImages_loop c i count imagesList log =
     (if i < count then
        (case fetchImages_body c i of
           (None, calls) \<Rightarrow>
             fetchImages_loop c (js_increment i) count imagesList (log @ calls)
         | (Some entry, calls) \<Rightarrow>
             fetchImages_loop c (js_increment i) count (imagesList @ [entry]) (log @ calls))
      else Some (imagesList, log))"

definition fetchImages :: "environment \<Rightarrow> image_reads option \<Rightarrow> image_entry pass" where
  "fetchImages env ethers =
     (if canteenContract env = None \<or> falsy_count (imagesCount env)
         \<or> ethersReadonlyProvider env = None
      then NoFetch
      else (case (imagesCount env, ethers) of
              (None, _) \<Rightarrow> NoFetch
            | (Some n, None) \<Rightarrow> Aborted
            | (Some n, Some contract) \<Rightarrow>
                (case fetchImages_loop contract 0 (Number n) [] [] of
                   None \<Rightarrow> Unfinished
                 | Some (imagesList, log) \<Rightarrow> Fetched imagesList log)))"

text \<open>The last statement of the function, \<open>setImages(imagesList)\<close>.\<close>

fun setImages_of :: "image_entry pass \<Rightarrow> hook_state \<Rightarrow> hook_state" where
  "setImages_of (Fetched imagesList log) st = st\<lparr>images := imagesList\<rparr>"
| "setImages_of NoFetch st = st"
| "setImages_of Aborted st = st"
| "setImages_of Unfinished st = st"

text \<open>
  A pass in flight: the value of \<open>refreshTrigger\<close> at the render whose effect started
  it, and what its run produces. The source keeps no such stamp; it is bookkeeping for
  stating properties about the order of passes.
\<close>

record 'a running_pass =
  started_at :: nat
  run :: "'a pass"

definition start_fetchMembers ::
  "environment \<Rightarrow> member_reads option \<Rightarrow> hook_state \<Rightarrow> string running_pass" where
  "start_fetchMembers env ethers st =
     \<lparr>started_at = refreshTrigger st, run = fetchMembers env ethers\<rparr>"

definition start_fetchImages ::
  "environment \<Rightarrow> image_reads option \<Rightarrow> hook_state \<Rightarrow> image_entry running_pass" where
  "start_fetchImages env ethers st =
     \<lparr>started_at = refreshTrigger st, run = fetchImages env ethers\<rparr>"

definition complete_fetchMembers :: "string running_pass \<Rightarrow> hook_state \<Rightarrow> hook_state" where
  "complete_fetchMembers p st = setMembers_of (run p) st"

definition complete_fetchImages :: "image_entry running_pass \<Rightarrow> hook_state \<Rightarrow> hook_state" where
  "complete_fetchImages p st = setImages_of (run p) st"

text \<open>The \<open>refresh\<close> action the hook returns: \<open>setRefreshTrigger(prev => prev + 1)\<close>.\<close>

definition refresh :: "hook_state \<Rightarrow> hook_state" where
  "refresh st = st\<lparr>refreshTrigger := refreshTrigger st + 1\<rparr>"

section \<open>Change notifications\<close>

text \<open>
  The hook registers two watchers with \<open>useWatchContractEvent\<close>, one per event name.
  The library runs the \<open>onLogs\<close> of every watcher whose \<open>eventName\<close> is the name of
  the event received.
\<close>

definition setRefreshTrigger :: "(nat \<Rightarrow> nat) \<Rightarrow> hook_state \<Rightarrow> hook_state" where
  "setRefreshTrigger f st = st\<lparr>refreshTrigger := f (refreshTrigger st)\<rparr>"

definition setMessage :: "string \<Rightarrow> hook_state \<Rightarrow> hook_state" where
  "setMessage m st = st\<lparr>message := m\<rparr>"

definition setIsProcessing :: "bool \<Rightarrow> hook_state \<Rightarrow> hook_state" where
  "setIsProcessing b st = st\<lparr>isProcessing := b\<rparr>"

definition onLogs_ImageAdded :: "hook_state \<Rightarrow> hook_state \<times> call list" where
  "onLogs_ImageAdded st = (setRefreshTrigger (\<lambda>prev. prev + 1) st, [Call_refetchImagesCount])"

definition onLogs_ImageRemoved :: "hook_state \<Rightarrow> hook_state \<times> call list" where
  "onLogs_ImageRemoved st = (setRefreshTrigger (\<lambda>prev. prev + 1) st, [Call_refetchImagesCount])"

definition watchers :: "(string \<times> (hook_state \<Rightarrow> hook_state \<times> call list)) list" where
  "watchers = [(''ImageAdded'', onLogs_ImageAdded), (''ImageRemoved'', onLogs_ImageRemoved)]"

fun deliver ::
  "(string \<times> (hook_state \<Rightarrow> hook_state \<times> call list)) list \<Rightarrow> string \<Rightarrow> hook_state
     \<Rightarrow> hook_state \<times> call list" where
  "deliver [] eventName st = (st, [])"
| "deliver ((watched, onLogs) # ws) eventName st =
     (if watched = eventName
      then (case onLogs st of
              (st1, calls1) \<Rightarrow>
                (case deliver ws eventName st1 of (st2, calls2) \<Rightarrow> (st2, calls1 @ calls2)))
      else deliver ws eventName st)"

definition receive_event :: "string \<Rightarrow> hook_state \<Rightarrow> hook_state \<times> call list" where
  "receive_event eventName st = deliver watchers eventName st"

section \<open>Mutations\<close>

text \<open>
  A JavaScript number as far as \<open>BigInt(...)\<close> tells numbers apart: a double with an
  integral value, or one without (\<open>NaN\<close>, an infinity, a fraction). \<open>BigInt\<close> throws
  a \<open>RangeError\<close> on the latter; the wording of its message is the engine's, and
  \<open>NonIntegral\<close> carries that wording.
\<close>

datatype number = Integral int | NonIntegral string

fun BigInt :: "number \<Rightarrow> thrown + int" where
  "BigInt (Integral n) = Inr n"
| "BigInt (NonIntegral rangeErrorMessage) = Inl (ErrorObject (Some rangeErrorMessage))"

text \<open>
  \<open>error.message || fallback\<close>: reading a property of \<open>null\<close>/\<open>undefined\<close> throws
  a \<open>TypeError\<close>; a missing or empty message is falsy and gives the fallback.
\<close>

fun message_or :: "thrown \<Rightarrow> string \<Rightarrow> thrown + string" where
  "message_or (Nullish typeErrorMessage) fallback = Inl (ErrorObject (Some typeErrorMessage))"
| "message_or (ErrorObject None) fallback = Inr fallback"
| "message_or (ErrorObject (Some m)) fallback = Inr (if m = [] then fallback else m)"

text \<open>
  How the promise an async function returned settles. Neither \<open>addImage\<close> nor
  \<open>removeImage\<close> has a \<open>return\<close> with a value, so they resolve with \<open>undefined\<close>.
\<close>

datatype js_value = Undefined | StringValue string

datatype settlement = Resolved js_value | Rejected thrown

text \<open>
  An async function runs up to its first \<open>await\<close> when it is called: it has either
  settled by then, or it is suspended at \<open>await writeContractAsync(...)\<close>, and the call
  to \<open>writeContractAsync\<close> is the last of the calls made so far.
\<close>

datatype invocation =
    Settled hook_state "call list" settlement
  | Awaiting hook_state "call list"

text \<open>The \<open>catch\<close> block of \<open>addImage\<close> followed by its \<open>finally\<close> block.\<close>

definition addImage_catch :: "thrown \<Rightarrow> hook_state \<Rightarrow> hook_state \<times> call list \<times> settlement" where
  "addImage_catch error st =
     (case message_or error ''Failed to add image'' of
        Inl typeError \<Rightarrow>
          (setIsProcessing False st, [Console_error ''Error adding image:''], Rejected typeError)
      | Inr text \<Rightarrow>
          (setIsProcessing False (setMessage (''Error: '' @ text) st),
           [Console_error ''Error adding image:''], Resolved Undefined))"

definition addImage :: "environment \<Rightarrow> string \<Rightarrow> number \<Rightarrow> hook_state \<Rightarrow> invocation" where
  "addImage env imageName numReplicas st =
     (case canteenContract env of
        None \<Rightarrow> Settled (setMessage ''Contract not available'' st) [] (Resolved Undefined)
      | Some contract \<Rightarrow>
          if \<not> writeContractAsync env
          then Settled (setMessage ''Contract not available'' st) [] (Resolved Undefined)
          else
            (let st1 = setMessage ''Adding image...'' (setIsProcessing True st) in
             case BigInt numReplicas of
               Inl error \<Rightarrow>
                 (case addImage_catch error st1 of
                    (st2, calls, outcome) \<Rightarrow> Settled st2 calls outcome)
             | Inr n \<Rightarrow>
                 Awaiting st1
                   [Call_writeContractAsync
                      \<lparr>to_address = address contract, with_abi = abi contract,
                       functionName = ''addImage'',
                       args = [AbiString imageName, AbiBigInt n]\<rparr>]))"

text \<open>
  The rest of \<open>addImage\<close>, run when the promise of \<open>writeContractAsync\<close> settles:
  with the transaction hash, or with what it rejected with. The state is the state of
  the hook at that moment.
\<close>

definition addImage_resume ::
  "thrown + string \<Rightarrow> hook_state \<Rightarrow> hook_state \<times> call list \<times> settlement" where
  "addImage_resume written st =
     (case written of
        Inr tx \<Rightarrow>
          (setIsProcessing False
             (setRefreshTrigger (\<lambda>prev. prev + 1) (setMessage (''Image added! Tx: '' @ tx) st)),
           [Call_refetchImagesCount], Resolved Undefined)
      | Inl error \<Rightarrow> addImage_catch error st)"

definition removeImage_catch ::
  "thrown \<Rightarrow> hook_state \<Rightarrow> hook_state \<times> call list \<times> settlement" where
  "removeImage_catch error st =
     (case message_or error ''Failed to remove image'' of
        Inl typeError \<Rightarrow>
          (setIsProcessing False st, [Console_error ''Error removing image:''], Rejected typeError)
      | Inr text \<Rightarrow>
          (setIsProcessing False (setMessage (''Error: '' @ text) st),
           [Console_error ''Error removing image:''], Resolved Undefined))"

definition removeImage :: "environment \<Rightarrow> string \<Rightarrow> hook_state \<Rightarrow> invocation" where
  "removeImage env imageName st =
     (case canteenContract env of
        None \<Rightarrow> Settled (setMessage ''Contract not available'' st) [] (Resolved Undefined)
      | Some contract \<Rightarrow>
          if \<not> writeContractAsync env
          then Settled (setMessage ''Contract not available'' st) [] (Resolved Undefined)
          else
            Awaiting (setMessage ''Removing image...'' (setIsProcessing True st))
              [Call_writeContractAsync
                 \<lparr>to_address = address contract, with_abi = abi contract,
                  functionName = ''removeImage'',
                  args = [AbiString imageName]\<rparr>])"

definition removeImage_resume ::
  "thrown + string \<Rightarrow> hook_state \<Rightarrow> hook_state \<times> call list \<times> settlement" where
  "removeImage_resume written st =
     (case written of
        Inr tx \<Rightarrow>
          (setIsProcessing False
             (setRefreshTrigger (\<lambda>prev. prev + 1) (setMessage (''Image removed! Tx: '' @ tx) st)),
           [Call_refetchImagesCount], Resolved Undefined)
      | Inl error \<Rightarrow> removeImage_catch error st)"

text \<open>Reading an invocation: the state it left, and the write it made, if any.\<close>

fun state_after :: "invocation \<Rightarrow> hook_state" where
  "state_after (Settled st calls outcome) = st"
| "state_after (Awaiting st calls) = st"

fun calls_of :: "invocation \<Rightarrow> call list" where
  "calls_of (Settled st calls outcome) = calls"
| "calls_of (Awaiting st calls) = calls"

fun is_write :: "call \<Rightarrow> bool" where
  "is_write (Call_writeContractAsync request) = True"
| "is_write other = False"

definition writes_of :: "call list \<Rightarrow> call list" where
  "writes_of calls = filter is_write calls"

section \<open>What the hook returns, and the dashboard that calls it\<close>

definition returned_membersCount :: "hook_state \<Rightarrow> nat" where
  "returned_membersCount st = length (members st)"

definition returned_imagesCount :: "hook_state \<Rightarrow> nat" where
  "returned_imagesCount st = length (images st)"

record form_state =
  addImageName :: string
  addImageReplicas :: string
  removeImageName :: string

text \<open>
  \<open>handleAddImage\<close> up to its \<open>await\<close>: \<open>None\<close> is the early \<open>return\<close> that
  never calls the hook. \<open>parseInt\<close> (with radix 10) is the engine's and is a parameter.
\<close>

definition handleAddImage ::
  "(string \<Rightarrow> number) \<Rightarrow> environment \<Rightarrow> form_state \<Rightarrow> hook_state \<Rightarrow> invocation option" where
  "handleAddImage parseInt env form st =
     (if addImageName form = [] \<or> addImageReplicas form = [] then None
      else Some (addImage env (addImageName form) (parseInt (addImageReplicas form)) st))"

definition handleRemoveImage ::
  "environment \<Rightarrow> form_state \<Rightarrow> hook_state \<Rightarrow> invocation option" where
  "handleRemoveImage env form st =
     (if removeImageName form = [] then None
      else Some (removeImage env (removeImageName form) st))"

text \<open>What the two handlers do to the form once the awaited hook call has settled.\<close>

definition handleAddImage_settled :: "form_state \<Rightarrow> form_state" where
  "handleAddImage_settled form = form\<lparr>addImageName := [], addImageReplicas := ''3''\<rparr>"

definition handleRemoveImage_settled :: "form_state \<Rightarrow> form_state" where
  "handleRemoveImage_settled form = form\<lparr>removeImageName := []\<rparr>"

text \<open>The \<open>disabled\<close> attribute of the two submit buttons.\<close>

definition add_button_disabled :: "hook_state \<Rightarrow> form_state \<Rightarrow> bool" where
  "add_button_disabled st form =
     (isProcessing st \<or> addImageName form = [] \<or> addImageReplicas form = [])"

definition remove_button_disabled :: "hook_state \<Rightarrow> form_state \<Rightarrow> bool" where
  "remove_button_disabled st form = (isProcessing st \<or> removeImageName form = [])"

section \<open>A pass described entry by entry\<close>

text \<open>
  The calls a run has made when it is over, and the list it then hands to the setter.
  A run that returned at the guard or aborted made no call; a run that never ends is
  never over, and both readings give it nothing.
\<close>

fun calls_made :: "'a pass \<Rightarrow> call list" where
  "calls_made NoFetch = []"
| "calls_made Aborted = []"
| "calls_made Unfinished = []"
| "calls_made (Fetched entries log) = log"






section \<open>Sample inputs\<close>

text \<open>
  The state of a freshly mounted hook (the arguments of the \<open>useState\<close> calls), a
  resolved environment with three members and three images, and registries whose second
  entry is inactive, whose later view has only the first entry active, and whose first
  key fetch fails. Then an environment whose counts are zero and undefined and one whose
  counts are both zero, a registry of \<open>2^53 + 1\<close> members of which only the last two
  are active, an image whose replica count is \<open>2^53 + 1\<close>, and a rejection with
  \<open>null\<close>.
\<close>

definition initial_state :: hook_state where
  "initial_state =
     \<lparr>message = [], isProcessing = False, members = [], images = [], refreshTrigger = 0\<rparr>"

definition demo_contract :: deployed_contract where
  "demo_contract = \<lparr>address = ''0x5FbDB2315678afecb367f032d93F642f64180aa3'', abi = ''Canteen''\<rparr>"

definition demo_env :: environment where
  "demo_env =
     \<lparr>canteenContract = Some demo_contract, membersCount = Some 3, imagesCount = Some 3,
      ethersReadonlyProvider = Some Provider, writeContractAsync = True,
      encryptionContext = (\<lambda>n. ''0xc1f3e2'')\<rparr>"

definition demo_members :: member_reads where
  "demo_members =
     \<lparr>members_at = (\<lambda>i. if i = 0 then Inr ''node-a'' else if i = 1 then Inr ''node-b''
                          else if i = 2 then Inr ''node-c'' else Inl (ErrorObject (Some ''out of range''))),
      getMemberDetails = (\<lambda>i host. Inr (''nginx'', host \<noteq> ''node-b'', ''0x00''))\<rparr>"

definition later_members :: member_reads where
  "later_members =
     \<lparr>members_at = members_at demo_members,
      getMemberDetails = (\<lambda>i host. Inr (''nginx'', host = ''node-a'', ''0x00''))\<rparr>"


definition demo_images :: image_reads where
  "demo_images =
     \<lparr>images_at = (\<lambda>i. if i = 0 then Inr ''nginx'' else if i = 1 then Inr ''redis''
                          else if i = 2 then Inr ''postgres'' else Inl (ErrorObject (Some ''out of range''))),
      getImageDetails = (\<lambda>i imageName. Inr (3, 1, imageName \<noteq> ''redis''))\<rparr>"

definition later_images :: image_reads where
  "later_images =
     \<lparr>images_at = images_at demo_images,
      getImageDetails = (\<lambda>i imageName. Inr (3, 1, imageName = ''nginx''))\<rparr>"

definition pending_state :: hook_state where
  "pending_state = state_after (addImage demo_env ''nginx'' (Integral 3) initial_state)"

definition demo_form :: form_state where
  "demo_form = \<lparr>addImageName = ''nginx'', addImageReplicas = ''3'', removeImageName = ''redis''\<rparr>"

definition published_state :: hook_state where
  "published_state =
     complete_fetchImages (start_fetchImages demo_env (Some demo_images) initial_state)
       (complete_fetchMembers (start_fetchMembers demo_env (Some demo_members) initial_state)
          initial_state)"

definition unresolved_env :: environment where
  "unresolved_env = demo_env\<lparr>membersCount := Some 0, imagesCount := None\<rparr>"





definition null_rejection :: thrown where
  "null_rejection = Nullish ''Cannot read properties of null''"


section \<open>Doubles\<close>

lemma double_small: "n < 9007199254740992 \<Longrightarrow> double_of_nat n = n"
  by (simp add: double_of_nat_def shift_for.simps [of n])

lemma shift_53: "shift_for 9007199254740992 = 1"
  by (simp add: shift_for.simps [of 9007199254740992] shift_for.simps [of 4503599627370496])


lemma shift_53_3: "shift_for 9007199254740995 = 1"
  by (simp add: shift_for.simps [of 9007199254740995] shift_for.simps [of 4503599627370497])

lemma double_53: "double_of_nat 9007199254740992 = 9007199254740992"
  by (simp add: double_of_nat_def shift_53)


lemma double_53_3: "double_of_nat 9007199254740995 = 9007199254740996"
  by (simp add: double_of_nat_def shift_53_3)

lemma double_le: "n \<le> 9007199254740992 \<Longrightarrow> double_of_nat n = n"
  using double_small [of n] double_53 by (cases "n = 9007199254740992") auto

lemma Number_exact: "unat n \<le> 9007199254740992 \<Longrightarrow> Number n = unat n"
  by (simp add: Number_def double_le)


lemma Number_3: "Number 3 = 3" and Number_1: "Number 1 = 1"
  by (simp_all add: Number_exact)


section \<open>The loops as filters over the index range\<close>

lemma fetchMembers_loop_step:
  assumes "i < count" and "js_increment i = i + 1"
  shows "fetchMembers_loop c i count membersList log =
     fetchMembers_loop c (i + 1) count
       (case fst (fetchMembers_body c i) of None \<Rightarrow> membersList | Some memberHost \<Rightarrow> membersList @ [memberHost])
       (log @ snd (fetchMembers_body c i))"
  using assms
  by (subst fetchMembers_loop.simps) (simp split: prod.splits option.splits)

lemma fetchMembers_loop_stop:
  "\<not> i < count \<Longrightarrow> fetchMembers_loop c i count membersList log = Some (membersList, log)"
  by (subst fetchMembers_loop.simps) simp

lemma fetchMembers_loop_ends:
  "i \<le> count \<Longrightarrow> count \<le> 9007199254740992 \<Longrightarrow>
   fetchMembers_loop c i count membersList log =
     Some (membersList @ List.map_filter (\<lambda>j. fst (fetchMembers_body c j)) [i..<count],
           log @ concat (map (\<lambda>j. snd (fetchMembers_body c j)) [i..<count]))"
proof (induction "count - i" arbitrary: i membersList log)
  case 0
  then show ?case by (simp add: fetchMembers_loop_stop map_filter_simps)
next
  case (Suc d)
  then have lt: "i < count" by simp
  with Suc.prems have inc: "js_increment i = i + 1"
    by (simp add: js_increment_def double_le)
  from lt have u: "[i..<count] = i # [i + 1..<count]"
    by (simp add: upt_conv_Cons)
  have d: "d = count - (i + 1)" using Suc.hyps(2) by simp
  have le: "i + 1 \<le> count" using lt by simp
  note ih = Suc.hyps(1) [OF d le Suc.prems(2)]
  show ?case
    by (cases "fst (fetchMembers_body c i)")
      (simp_all only: fetchMembers_loop_step [OF lt inc] ih u map_filter_simps option.case list.map
        concat.simps append_assoc append_Cons append_Nil)
qed


lemma fetchImages_loop_step:
  assumes "i < count" and "js_increment i = i + 1"
  shows "fetchImages_loop c i count imagesList log =
     fetchImages_loop c (i + 1) count
       (case fst (fetchImages_body c i) of None \<Rightarrow> imagesList | Some entry \<Rightarrow> imagesList @ [entry])
       (log @ snd (fetchImages_body c i))"
  using assms
  by (subst fetchImages_loop.simps) (simp split: prod.splits option.splits)

lemma fetchImages_loop_stop:
  "\<not> i < count \<Longrightarrow> fetchImages_loop c i count imagesList log = Some (imagesList, log)"
  by (subst fetchImages_loop.simps) simp

lemma fetchImages_loop_ends:
  "i \<le> count \<Longrightarrow> count \<le> 9007199254740992 \<Longrightarrow>
   fetchImages_loop c i count imagesList log =
     Some (imagesList @ List.map_filter (\<lambda>j. fst (fetchImages_body c j)) [i..<count],
           log @ concat (map (\<lambda>j. snd (fetchImages_body c j)) [i..<count]))"
proof (induction "count - i" arbitrary: i imagesList log)
  case 0
  then show ?case by (simp add: fetchImages_loop_stop map_filter_simps)
next
  case (Suc d)
  then have lt: "i < count" by simp
  with Suc.prems have inc: "js_increment i = i + 1"
    by (simp add: js_increment_def double_le)
  from lt have u: "[i..<count] = i # [i + 1..<count]"
    by (simp add: upt_conv_Cons)
  have d: "d = count - (i + 1)" using Suc.hyps(2) by simp
  have le: "i + 1 \<le> count" using lt by simp
  note ih = Suc.hyps(1) [OF d le Suc.prems(2)]
  show ?case
    by (cases "fst (fetchImages_body c i)")
      (simp_all only: fetchImages_loop_step [OF lt inc] ih u map_filter_simps option.case list.map
        concat.simps append_assoc append_Cons append_Nil)
qed












section \<open>The sample inputs, evaluated\<close>


lemma upt3: "[0..<3] = [0, 1, 2]"
  by (simp add: upt_rec)

lemma demo_members_run:
  "fetchMembers demo_env (Some demo_members) =
     Fetched [''node-a'', ''node-c'']
       [Call_members 0, Call_getMemberDetails ''node-a'',
        Call_members 1, Call_getMemberDetails ''node-b'',
        Call_members 2, Call_getMemberDetails ''node-c'']"
  by (simp add: fetchMembers_def demo_env_def demo_members_def demo_contract_def Number_3
      fetchMembers_loop_ends upt3 map_filter_simps fetchMembers_body_def)

lemma later_members_run:
  "fetchMembers demo_env (Some later_members) =
     Fetched [''node-a'']
       [Call_members 0, Call_getMemberDetails ''node-a'',
        Call_members 1, Call_getMemberDetails ''node-b'',
        Call_members 2, Call_getMemberDetails ''node-c'']"
  by (simp add: fetchMembers_def demo_env_def demo_members_def later_members_def demo_contract_def Number_3
      fetchMembers_loop_ends upt3 map_filter_simps fetchMembers_body_def)


lemma demo_images_run:
  "fetchImages demo_env (Some demo_images) =
     Fetched [\<lparr>name = ''nginx'', replicas = 3, deployed = 1, active = True\<rparr>,
              \<lparr>name = ''postgres'', replicas = 3, deployed = 1, active = True\<rparr>]
       [Call_images 0, Call_getImageDetails ''nginx'',
        Call_images 1, Call_getImageDetails ''redis'',
        Call_images 2, Call_getImageDetails ''postgres'']"
  by (simp add: fetchImages_def demo_env_def demo_images_def demo_contract_def Number_3 Number_1
      fetchImages_loop_ends upt3 map_filter_simps fetchImages_body_def)

lemma later_images_run:
  "fetchImages demo_env (Some later_images) =
     Fetched [\<lparr>name = ''nginx'', replicas = 3, deployed = 1, active = True\<rparr>]
       [Call_images 0, Call_getImageDetails ''nginx'',
        Call_images 1, Call_getImageDetails ''redis'',
        Call_images 2, Call_getImageDetails ''postgres'']"
  by (simp add: fetchImages_def demo_env_def demo_images_def later_images_def demo_contract_def Number_3 Number_1
      fetchImages_loop_ends upt3 map_filter_simps fetchImages_body_def)



section \<open>The first part of a mutation\<close>

lemma pending_state_eq:
  "pending_state =
     \<lparr>message = ''Adding image...'', isProcessing = True, members = [], images = [],
      refreshTrigger = 0\<rparr>"
  by (simp add: pending_state_def addImage_def demo_env_def initial_state_def setMessage_def
      setIsProcessing_def)

lemma demo_env_available:
  "canteenContract demo_env = Some demo_contract" "writeContractAsync demo_env"
  by (simp_all add: demo_env_def)

lemma addImage_available:
  assumes "canteenContract env = Some contract" and "writeContractAsync env"
  shows "addImage env imageName (Integral n) st =
     Awaiting (st\<lparr>isProcessing := True, message := ''Adding image...''\<rparr>)
       [Call_writeContractAsync
          \<lparr>to_address = address contract, with_abi = abi contract,
           functionName = ''addImage'', args = [AbiString imageName, AbiBigInt n]\<rparr>]"
  using assms by (simp add: addImage_def setMessage_def setIsProcessing_def)

lemma removeImage_available:
  assumes "canteenContract env = Some contract" and "writeContractAsync env"
  shows "removeImage env imageName st =
     Awaiting (st\<lparr>isProcessing := True, message := ''Removing image...''\<rparr>)
       [Call_writeContractAsync
          \<lparr>to_address = address contract, with_abi = abi contract,
           functionName = ''removeImage'', args = [AbiString imageName]\<rparr>]"
  using assms by (simp add: removeImage_def setMessage_def setIsProcessing_def)

lemma addImage_not_integral:
  assumes "canteenContract env = Some contract" and "writeContractAsync env"
  shows "addImage env imageName (NonIntegral printed) st =
     Settled
       (st\<lparr>isProcessing := False,
           message := ''Error: '' @ (if printed = [] then ''Failed to add image'' else printed)\<rparr>)
       [Console_error ''Error adding image:''] (Resolved Undefined)"
  using assms
  by (simp add: addImage_def addImage_catch_def setMessage_def setIsProcessing_def)

section \<open>Order of passes\<close>

text \<open>
  Claim C1, as stated, fails. A members pass starts on the freshly mounted hook
  (\<open>refreshTrigger = 0\<close>) and reads \<open>demo_members\<close>; after a \<open>refresh\<close> a second pass
  starts (\<open>refreshTrigger = 1\<close>) and reads \<open>later_members\<close>. The newer pass completes
  first and publishes \<open>[node-a]\<close>; the older pass completes afterwards and its list
  \<open>[node-a, node-c]\<close> replaces the list of the newer pass.
\<close>

theorem stale_pass_overwrites_newer:
  "started_at (start_fetchMembers demo_env (Some demo_members) initial_state)
     < started_at (start_fetchMembers demo_env (Some later_members) (refresh initial_state))
   \<and> members
       (complete_fetchMembers
          (start_fetchMembers demo_env (Some later_members) (refresh initial_state))
          (refresh initial_state))
       = [''node-a'']
   \<and> members
       (complete_fetchMembers (start_fetchMembers demo_env (Some demo_members) initial_state)
          (complete_fetchMembers
             (start_fetchMembers demo_env (Some later_members) (refresh initial_state))
             (refresh initial_state)))
       = [''node-a'', ''node-c'']
   \<and> members
       (complete_fetchMembers (start_fetchMembers demo_env (Some demo_members) initial_state)
          (complete_fetchMembers
             (start_fetchMembers demo_env (Some later_members) (refresh initial_state))
             (refresh initial_state)))
       \<noteq> members
           (complete_fetchMembers
              (start_fetchMembers demo_env (Some later_members) (refresh initial_state))
              (refresh initial_state))"
  by (simp add: start_fetchMembers_def complete_fetchMembers_def refresh_def initial_state_def
      demo_members_run later_members_run)

text \<open>
  Claim C1, amended: for members and for images, a pass that completes applies its list
  whatever value \<open>refreshTrigger\<close> had when it started and whatever it is now; after two
  passes have completed, the published list is the list of the pass that completed last.
\<close>

theorem last_completed_pass_is_published:
  "(run pm = Fetched membersList mlog \<longrightarrow> members (complete_fetchMembers pm st) = membersList)
   \<and> (run pim = Fetched imagesList ilog \<longrightarrow> images (complete_fetchImages pim st) = imagesList)
   \<and> (run pm = Fetched membersList mlog \<longrightarrow>
        members (complete_fetchMembers pm (complete_fetchMembers pm' st)) = membersList)
   \<and> (run pim = Fetched imagesList ilog \<longrightarrow>
        images (complete_fetchImages pim (complete_fetchImages pim' st)) = imagesList)"
  by (simp add: complete_fetchMembers_def complete_fetchImages_def)

theorem last_completed_pass_is_published_witness:
  "run (start_fetchMembers demo_env (Some demo_members) initial_state)
     = Fetched [''node-a'', ''node-c'']
         [Call_members 0, Call_getMemberDetails ''node-a'',
          Call_members 1, Call_getMemberDetails ''node-b'',
          Call_members 2, Call_getMemberDetails ''node-c'']
   \<and> run (start_fetchImages demo_env (Some demo_images) initial_state)
     = Fetched [\<lparr>name = ''nginx'', replicas = 3, deployed = 1, active = True\<rparr>,
                \<lparr>name = ''postgres'', replicas = 3, deployed = 1, active = True\<rparr>]
         [Call_images 0, Call_getImageDetails ''nginx'',
          Call_images 1, Call_getImageDetails ''redis'',
          Call_images 2, Call_getImageDetails ''postgres'']
   \<and> members
       (complete_fetchMembers (start_fetchMembers demo_env (Some demo_members) initial_state)
          (complete_fetchMembers
             (start_fetchMembers demo_env (Some later_members) (refresh initial_state))
             (refresh initial_state)))
       = [''node-a'', ''node-c'']
   \<and> images
       (complete_fetchImages (start_fetchImages demo_env (Some demo_images) initial_state)
          (complete_fetchImages
             (start_fetchImages demo_env (Some later_images) (refresh initial_state))
             (refresh initial_state)))
       = [\<lparr>name = ''nginx'', replicas = 3, deployed = 1, active = True\<rparr>,
          \<lparr>name = ''postgres'', replicas = 3, deployed = 1, active = True\<rparr>]"
proof -
  have hm: "run (start_fetchMembers demo_env (Some demo_members) initial_state)
     = Fetched [''node-a'', ''node-c'']
         [Call_members 0, Call_getMemberDetails ''node-a'',
          Call_members 1, Call_getMemberDetails ''node-b'',
          Call_members 2, Call_getMemberDetails ''node-c'']"
    by (simp add: start_fetchMembers_def demo_members_run)
  have hi: "run (start_fetchImages demo_env (Some demo_images) initial_state)
     = Fetched [\<lparr>name = ''nginx'', replicas = 3, deployed = 1, active = True\<rparr>,
                \<lparr>name = ''postgres'', replicas = 3, deployed = 1, active = True\<rparr>]
         [Call_images 0, Call_getImageDetails ''nginx'',
          Call_images 1, Call_getImageDetails ''redis'',
          Call_images 2, Call_getImageDetails ''postgres'']"
    by (simp add: start_fetchImages_def demo_images_run)
  note t = last_completed_pass_is_published
    [where pm = "start_fetchMembers demo_env (Some demo_members) initial_state"
       and pim = "start_fetchImages demo_env (Some demo_images) initial_state"
       and st = "refresh initial_state"
       and pm' = "start_fetchMembers demo_env (Some later_members) (refresh initial_state)"
       and pim' = "start_fetchImages demo_env (Some later_images) (refresh initial_state)"]
  note m = t [THEN conjunct2, THEN conjunct2, THEN conjunct1, THEN mp, OF hm]
  note i = t [THEN conjunct2, THEN conjunct2, THEN conjunct2, THEN mp, OF hi]
  from hm hi m i show ?thesis by (intro conjI)
qed

section \<open>Submitting while a mutation is pending\<close>

text \<open>
  Claim C2, as stated, fails. \<open>pending_state\<close> is the state the hook is in while a
  first \<open>addImage\<close> waits for its write: \<open>isProcessing\<close> is true. A second
  \<open>addImage\<close>, and a \<open>removeImage\<close>, called in that state are not rejected: each
  calls \<open>writeContractAsync\<close> again.
\<close>

theorem second_submission_writes_again:
  "isProcessing pending_state
   \<and> addImage demo_env ''redis'' (Integral 2) pending_state =
       Awaiting pending_state
         [Call_writeContractAsync
            \<lparr>to_address = address demo_contract, with_abi = abi demo_contract,
             functionName = ''addImage'', args = [AbiString ''redis'', AbiBigInt 2]\<rparr>]
   \<and> removeImage demo_env ''redis'' pending_state =
       Awaiting (pending_state\<lparr>message := ''Removing image...''\<rparr>)
         [Call_writeContractAsync
            \<lparr>to_address = address demo_contract, with_abi = abi demo_contract,
             functionName = ''removeImage'', args = [AbiString ''redis'']\<rparr>]"
  by (simp add: addImage_available [OF demo_env_available]
      removeImage_available [OF demo_env_available] pending_state_eq)

text \<open>
  Claim C2, amended: while \<open>isProcessing\<close> is true the dashboard disables both submit
  buttons; \<open>addImage\<close> and \<open>removeImage\<close> themselves do not read the flag, and a
  call made while it is true (with the contract resolved, the write capability present
  and an integral replica count) calls \<open>writeContractAsync\<close> once more and leaves the
  flag true.
\<close>

theorem pending_check_is_in_the_dashboard:
  "(isProcessing st \<longrightarrow> add_button_disabled st form \<and> remove_button_disabled st form)
   \<and> (isProcessing st \<and> canteenContract env = Some contract \<and> writeContractAsync env \<longrightarrow>
        writes_of (calls_of (addImage env imageName (Integral n) st)) =
          [Call_writeContractAsync
             \<lparr>to_address = address contract, with_abi = abi contract,
              functionName = ''addImage'', args = [AbiString imageName, AbiBigInt n]\<rparr>]
        \<and> writes_of (calls_of (removeImage env imageName st)) =
          [Call_writeContractAsync
             \<lparr>to_address = address contract, with_abi = abi contract,
              functionName = ''removeImage'', args = [AbiString imageName]\<rparr>]
        \<and> isProcessing (state_after (addImage env imageName (Integral n) st))
        \<and> isProcessing (state_after (removeImage env imageName st)))"
  by (simp add: add_button_disabled_def remove_button_disabled_def addImage_available
      removeImage_available writes_of_def)

theorem pending_check_is_in_the_dashboard_witness:
  "isProcessing pending_state
   \<and> canteenContract demo_env = Some demo_contract \<and> writeContractAsync demo_env
   \<and> add_button_disabled pending_state demo_form
   \<and> remove_button_disabled pending_state demo_form
   \<and> writes_of (calls_of (addImage demo_env ''redis'' (Integral 2) pending_state)) =
          [Call_writeContractAsync
             \<lparr>to_address = address demo_contract, with_abi = abi demo_contract,
              functionName = ''addImage'', args = [AbiString ''redis'', AbiBigInt 2]\<rparr>]"
proof -
  have h: "isProcessing pending_state
      \<and> canteenContract demo_env = Some demo_contract \<and> writeContractAsync demo_env"
    by (simp add: pending_state_eq demo_env_available)
  from h pending_check_is_in_the_dashboard
    [of pending_state demo_form demo_env demo_contract "''redis''" 2]
  show ?thesis by blast
qed

section \<open>What a completed pass publishes\<close>




section \<open>Receiving a change notification\<close>

text \<open>
  Claim C4, as stated, fails for the member collection. The hook watches
  \<open>ImageAdded\<close> and \<open>ImageRemoved\<close> only: a \<open>MemberAdded\<close> or \<open>MemberRemoved\<close>
  event runs no handler, \<open>refreshTrigger\<close> does not grow and no count is requested.
\<close>

theorem member_event_is_not_watched:
  "receive_event ''MemberAdded'' initial_state = (initial_state, [])
   \<and> receive_event ''MemberRemoved'' initial_state = (initial_state, [])
   \<and> \<not> refreshTrigger initial_state < refreshTrigger (fst (receive_event ''MemberAdded'' initial_state))"
  by (simp add: receive_event_def watchers_def)

text \<open>
  Claim C4, amended: for every \<open>ImageAdded\<close> or \<open>ImageRemoved\<close> notification,
  receipt of the event increases \<open>refreshTrigger\<close> by one, so strictly, and requests an
  updated images count; nothing else of the state changes.
\<close>

theorem image_event_bumps_and_refetches:
  "eventName = ''ImageAdded'' \<or> eventName = ''ImageRemoved'' \<Longrightarrow>
     receive_event eventName st
       = (st\<lparr>refreshTrigger := refreshTrigger st + 1\<rparr>, [Call_refetchImagesCount])
     \<and> refreshTrigger st < refreshTrigger (fst (receive_event eventName st))"
  by (auto simp: receive_event_def watchers_def onLogs_ImageAdded_def onLogs_ImageRemoved_def
      setRefreshTrigger_def)

theorem image_event_bumps_and_refetches_witness:
  "receive_event ''ImageRemoved'' initial_state
       = (initial_state\<lparr>refreshTrigger := 1\<rparr>, [Call_refetchImagesCount])
   \<and> refreshTrigger initial_state
       < refreshTrigger (fst (receive_event ''ImageRemoved'' initial_state))"
proof -
  have h: "''ImageRemoved'' = ''ImageAdded'' \<or> ''ImageRemoved'' = ''ImageRemoved''" by simp
  from image_event_bumps_and_refetches [OF h, of initial_state]
  show ?thesis by (simp add: initial_state_def)
qed

section \<open>What is passed to the write\<close>

text \<open>
  Claim C5, as stated, fails. \<open>addImage\<close> with the replica count \<open>3\<close> passes the
  plaintext \<open>bigint\<close> \<open>3\<close> to \<open>writeContractAsync\<close>, not the blob the encryption
  context gives for \<open>3\<close>.
\<close>

theorem replica_count_is_sent_in_plaintext:
  "calls_of (addImage demo_env ''nginx'' (Integral 3) initial_state) =
     [Call_writeContractAsync
        \<lparr>to_address = address demo_contract, with_abi = abi demo_contract,
         functionName = ''addImage'', args = [AbiString ''nginx'', AbiBigInt 3]\<rparr>]
   \<and> AbiBigInt 3 \<noteq> AbiBytes (encryptionContext demo_env 3)"
  by (simp add: addImage_available [OF demo_env_available])

text \<open>
  Claim C5, amended: the encryption context has no influence on what \<open>addImage\<close> and
  \<open>removeImage\<close> do; every write that \<open>addImage\<close> makes passes the image name
  and the replica count as the plaintext \<open>bigint\<close> \<open>BigInt(numReplicas)\<close>, and
  every write that \<open>removeImage\<close> makes passes the image name only.
\<close>

theorem write_arguments_ignore_encryption:
  "addImage (env\<lparr>encryptionContext := enc\<rparr>) imageName numReplicas st
     = addImage env imageName numReplicas st
   \<and> removeImage (env\<lparr>encryptionContext := enc\<rparr>) imageName st = removeImage env imageName st
   \<and> (\<forall>request. Call_writeContractAsync request
          \<in> set (calls_of (addImage env imageName numReplicas st)) \<longrightarrow>
        (\<exists>n. numReplicas = Integral n \<and> args request = [AbiString imageName, AbiBigInt n]))
   \<and> (\<forall>request. Call_writeContractAsync request
          \<in> set (calls_of (removeImage env imageName st)) \<longrightarrow>
        args request = [AbiString imageName])"
  by (cases numReplicas)
    (auto simp: addImage_def removeImage_def addImage_catch_def Let_def
      split: option.splits sum.splits if_splits)

theorem write_arguments_ignore_encryption_witness:
  "Call_writeContractAsync
        \<lparr>to_address = address demo_contract, with_abi = abi demo_contract,
         functionName = ''addImage'', args = [AbiString ''nginx'', AbiBigInt 3]\<rparr>
      \<in> set (calls_of (addImage demo_env ''nginx'' (Integral 3) initial_state))
   \<and> Call_writeContractAsync
        \<lparr>to_address = address demo_contract, with_abi = abi demo_contract,
         functionName = ''removeImage'', args = [AbiString ''nginx'']\<rparr>
      \<in> set (calls_of (removeImage demo_env ''nginx'' initial_state))
   \<and> (\<exists>n. Integral 3 = Integral n
        \<and> args \<lparr>to_address = address demo_contract, with_abi = abi demo_contract,
         functionName = ''addImage'', args = [AbiString ''nginx'', AbiBigInt 3]\<rparr>
            = [AbiString ''nginx'', AbiBigInt n])
   \<and> args \<lparr>to_address = address demo_contract, with_abi = abi demo_contract,
         functionName = ''removeImage'', args = [AbiString ''nginx'']\<rparr>
       = [AbiString ''nginx'']"
proof -
  have h: "Call_writeContractAsync
        \<lparr>to_address = address demo_contract, with_abi = abi demo_contract,
         functionName = ''addImage'', args = [AbiString ''nginx'', AbiBigInt 3]\<rparr>
      \<in> set (calls_of (addImage demo_env ''nginx'' (Integral 3) initial_state))"
    by (simp add: addImage_available [OF demo_env_available])
  have r: "Call_writeContractAsync
        \<lparr>to_address = address demo_contract, with_abi = abi demo_contract,
         functionName = ''removeImage'', args = [AbiString ''nginx'']\<rparr>
      \<in> set (calls_of (removeImage demo_env ''nginx'' initial_state))"
    by (simp add: removeImage_available [OF demo_env_available])
  note t = write_arguments_ignore_encryption
    [where env = demo_env and imageName = "''nginx''" and numReplicas = "Integral 3"
       and st = initial_state]
  note a = t [THEN conjunct2, THEN conjunct2, THEN conjunct1, THEN spec, THEN mp, OF h]
  note b = t [THEN conjunct2, THEN conjunct2, THEN conjunct2, THEN spec, THEN mp, OF r]
  show ?thesis
    by (intro conjI) (fact h r a b)+
qed

section \<open>A write that succeeds\<close>

text \<open>
  Claim C6, as stated, fails in its last part. When the write resolves with the
  transaction hash \<open>0xabc123\<close>, the promise of \<open>addImage\<close> (and of
  \<open>removeImage\<close>) resolves with \<open>undefined\<close>, not with the hash.
\<close>

theorem successful_write_resolves_with_undefined:
  "snd (snd (addImage_resume (Inr ''0xabc123'') pending_state)) = Resolved Undefined
   \<and> snd (snd (addImage_resume (Inr ''0xabc123'') pending_state))
       \<noteq> Resolved (StringValue ''0xabc123'')
   \<and> snd (snd (removeImage_resume (Inr ''0xabc123'') pending_state))
       \<noteq> Resolved (StringValue ''0xabc123'')"
  by (simp add: addImage_resume_def removeImage_resume_def)

text \<open>
  Claim C6, amended: when the write of a mutation succeeds, the message is set to
  \<open>Image added! Tx: \<close> (or \<open>Image removed! Tx: \<close>) followed by the transaction
  hash, \<open>refreshTrigger\<close> grows by one, so strictly, an updated images count is
  requested, \<open>isProcessing\<close> is set to false, and the promise resolves with
  \<open>undefined\<close>: the hash reaches the caller through the message only.
\<close>

theorem successful_write_reports_and_bumps:
  "addImage_resume (Inr tx) st =
     (st\<lparr>message := ''Image added! Tx: '' @ tx, refreshTrigger := refreshTrigger st + 1,
         isProcessing := False\<rparr>,
      [Call_refetchImagesCount], Resolved Undefined)
   \<and> removeImage_resume (Inr tx) st =
     (st\<lparr>message := ''Image removed! Tx: '' @ tx, refreshTrigger := refreshTrigger st + 1,
         isProcessing := False\<rparr>,
      [Call_refetchImagesCount], Resolved Undefined)
   \<and> refreshTrigger st < refreshTrigger (fst (addImage_resume (Inr tx) st))
   \<and> refreshTrigger st < refreshTrigger (fst (removeImage_resume (Inr tx) st))"
  by (simp add: addImage_resume_def removeImage_resume_def setMessage_def setIsProcessing_def
      setRefreshTrigger_def)

theorem successful_write_reports_and_bumps_witness:
  "addImage_resume (Inr ''0xabc123'') pending_state =
     (\<lparr>message = ''Image added! Tx: 0xabc123'', isProcessing = False, members = [],
       images = [], refreshTrigger = 1\<rparr>,
      [Call_refetchImagesCount], Resolved Undefined)"
  using successful_write_reports_and_bumps [of "''0xabc123''" pending_state]
  by (simp add: pending_state_eq)

section \<open>A write that fails\<close>

text \<open>
  When the write of a mutation fails with an error object, the hook does what claim C7
  says: \<open>isProcessing\<close> is set to false, the message is \<open>Error: \<close> followed by the
  text of the error, or by the fallback of the mutation when the error has no text;
  \<open>refreshTrigger\<close> and the returned \<open>membersCount\<close> and \<open>imagesCount\<close> are what
  they were, and the write is not called again. The flag is released whatever the write
  settled with, and also when the coercion of the replica count throws before the write
  is called.
\<close>

lemma failed_write_with_error_object:
  "addImage_resume (Inl (ErrorObject m)) st =
     (st\<lparr>message := ''Error: '' @ (case m of None \<Rightarrow> ''Failed to add image''
                                    | Some t \<Rightarrow> if t = [] then ''Failed to add image'' else t),
         isProcessing := False\<rparr>,
      [Console_error ''Error adding image:''], Resolved Undefined)
   \<and> removeImage_resume (Inl (ErrorObject m)) st =
     (st\<lparr>message := ''Error: '' @ (case m of None \<Rightarrow> ''Failed to remove image''
                                    | Some t \<Rightarrow> if t = [] then ''Failed to remove image'' else t),
         isProcessing := False\<rparr>,
      [Console_error ''Error removing image:''], Resolved Undefined)
   \<and> refreshTrigger (fst (addImage_resume (Inl e) st)) = refreshTrigger st
   \<and> refreshTrigger (fst (removeImage_resume (Inl e) st)) = refreshTrigger st
   \<and> returned_membersCount (fst (addImage_resume (Inl e) st)) = returned_membersCount st
   \<and> returned_imagesCount (fst (addImage_resume (Inl e) st)) = returned_imagesCount st
   \<and> returned_membersCount (fst (removeImage_resume (Inl e) st)) = returned_membersCount st
   \<and> returned_imagesCount (fst (removeImage_resume (Inl e) st)) = returned_imagesCount st
   \<and> writes_of (fst (snd (addImage_resume (Inl e) st))) = []
   \<and> writes_of (fst (snd (removeImage_resume (Inl e) st))) = []
   \<and> \<not> isProcessing (fst (addImage_resume written st))
   \<and> \<not> isProcessing (fst (removeImage_resume written st))
   \<and> (canteenContract env \<noteq> None \<and> writeContractAsync env \<longrightarrow>
        (\<forall>st' calls outcome. addImage env imageName numReplicas st = Settled st' calls outcome
           \<longrightarrow> \<not> isProcessing st'))"
proof -
  have catch_add: "\<And>x. refreshTrigger (fst (addImage_catch x st)) = refreshTrigger st
      \<and> members (fst (addImage_catch x st)) = members st
      \<and> images (fst (addImage_catch x st)) = images st
      \<and> writes_of (fst (snd (addImage_catch x st))) = []"
    by (simp add: addImage_catch_def setMessage_def setIsProcessing_def writes_of_def
        split: sum.splits)
  have catch_rem: "\<And>x. refreshTrigger (fst (removeImage_catch x st)) = refreshTrigger st
      \<and> members (fst (removeImage_catch x st)) = members st
      \<and> images (fst (removeImage_catch x st)) = images st
      \<and> writes_of (fst (snd (removeImage_catch x st))) = []"
    by (simp add: removeImage_catch_def setMessage_def setIsProcessing_def writes_of_def
        split: sum.splits)
  have rel_add: "\<And>x s. \<not> isProcessing (fst (addImage_catch x s))"
    by (simp add: addImage_catch_def setMessage_def setIsProcessing_def split: sum.splits)
  have rel_rem: "\<And>x s. \<not> isProcessing (fst (removeImage_catch x s))"
    by (simp add: removeImage_catch_def setMessage_def setIsProcessing_def split: sum.splits)
  have c1: "addImage_resume (Inl (ErrorObject m)) st =
     (st\<lparr>message := ''Error: '' @ (case m of None \<Rightarrow> ''Failed to add image''
                                    | Some t \<Rightarrow> if t = [] then ''Failed to add image'' else t),
         isProcessing := False\<rparr>,
      [Console_error ''Error adding image:''], Resolved Undefined)"
    by (cases m) (simp_all add: addImage_resume_def addImage_catch_def setMessage_def
        setIsProcessing_def)
  have c2: "removeImage_resume (Inl (ErrorObject m)) st =
     (st\<lparr>message := ''Error: '' @ (case m of None \<Rightarrow> ''Failed to remove image''
                                    | Some t \<Rightarrow> if t = [] then ''Failed to remove image'' else t),
         isProcessing := False\<rparr>,
      [Console_error ''Error removing image:''], Resolved Undefined)"
    by (cases m) (simp_all add: removeImage_resume_def removeImage_catch_def setMessage_def
        setIsProcessing_def)
  have c3: "\<not> isProcessing (fst (addImage_resume written st))"
    by (cases written)
      (simp_all add: addImage_resume_def rel_add setMessage_def setIsProcessing_def
        setRefreshTrigger_def)
  have c4: "\<not> isProcessing (fst (removeImage_resume written st))"
    by (cases written)
      (simp_all add: removeImage_resume_def rel_rem setMessage_def setIsProcessing_def
        setRefreshTrigger_def)
  have c5: "canteenContract env \<noteq> None \<and> writeContractAsync env \<longrightarrow>
        (\<forall>st' calls outcome. addImage env imageName numReplicas st = Settled st' calls outcome
           \<longrightarrow> \<not> isProcessing st')"
  proof (intro impI allI)
    fix st' calls outcome
    assume a: "canteenContract env \<noteq> None \<and> writeContractAsync env"
      and b: "addImage env imageName numReplicas st = Settled st' calls outcome"
    from a b have "\<exists>x s. addImage_catch x s = (st', calls, outcome)"
      by (cases numReplicas)
        (auto simp: addImage_def Let_def split: option.splits prod.splits)
    then obtain x s where "addImage_catch x s = (st', calls, outcome)" by blast
    then have "st' = fst (addImage_catch x s)" by simp
    then show "\<not> isProcessing st'" by (simp add: rel_add)
  qed
  from c1 c2 c3 c4 c5 catch_add catch_rem show ?thesis
    by (simp add: addImage_resume_def removeImage_resume_def returned_membersCount_def
        returned_imagesCount_def)
qed

text \<open>
  Claim C7 at a write that rejects with \<open>null\<close>: no text is available, and the claim
  has the message set to the generic fallback. The \<open>catch\<close> block reads
  \<open>error.message\<close> to build the message, the read throws, and \<open>setMessage\<close> is never
  reached: the message stays \<open>Adding image...\<close> (or \<open>Removing image...\<close>), while the
  flag is released.
\<close>

theorem null_rejection_leaves_the_progress_message:
  "message pending_state = ''Adding image...''
   \<and> message (fst (addImage_resume (Inl null_rejection) pending_state)) = ''Adding image...''
   \<and> message (fst (addImage_resume (Inl null_rejection) pending_state))
       \<noteq> ''Error: Failed to add image''
   \<and> \<not> isProcessing (fst (addImage_resume (Inl null_rejection) pending_state))
   \<and> message
        (fst (removeImage_resume (Inl null_rejection)
                (state_after (removeImage demo_env ''nginx'' initial_state))))
       = ''Removing image...''
   \<and> message
        (fst (removeImage_resume (Inl null_rejection)
                (state_after (removeImage demo_env ''nginx'' initial_state))))
       \<noteq> ''Error: Failed to remove image''"
  by (simp add: pending_state_eq removeImage_available [OF demo_env_available]
      addImage_resume_def removeImage_resume_def addImage_catch_def removeImage_catch_def
      null_rejection_def setIsProcessing_def initial_state_def)

section \<open>The arguments of an Add\<close>

text \<open>
  Claim C8, as stated, fails. \<open>addImage\<close> called with an empty image name and the
  replica count \<open>-5\<close> reaches the write, and passes the empty name and the negative
  \<open>bigint\<close> \<open>-5\<close>.
\<close>

theorem negative_count_and_empty_name_reach_the_write:
  "calls_of (addImage demo_env [] (Integral (- 5)) initial_state) =
     [Call_writeContractAsync
        \<lparr>to_address = address demo_contract, with_abi = abi demo_contract,
         functionName = ''addImage'', args = [AbiString [], AbiBigInt (- 5)]\<rparr>]"
  by (simp add: addImage_available [OF demo_env_available])

text \<open>
  Claim C8, amended: every write that \<open>addImage\<close> makes passes the image name as it
  was given and \<open>BigInt(numReplicas)\<close>, the integral value of the replica count with its
  sign; a replica count that is not integral never reaches the write. \<open>addImage\<close> does
  not check the name: when the call comes from the dashboard's \<open>handleAddImage\<close>, the
  image name and the replica text are not empty.
\<close>

theorem add_arguments_as_coerced:
  "(Call_writeContractAsync request \<in> set (calls_of (addImage env imageName numReplicas st))
      \<longrightarrow> (\<exists>n. numReplicas = Integral n
             \<and> args request = [AbiString imageName, AbiBigInt n]))
   \<and> writes_of (calls_of (addImage env imageName (NonIntegral printed) st)) = []
   \<and> (handleAddImage parseInt env form st = Some invocation
        \<and> Call_writeContractAsync request \<in> set (calls_of invocation)
      \<longrightarrow> addImageName form \<noteq> [] \<and> addImageReplicas form \<noteq> []
          \<and> (\<exists>n. parseInt (addImageReplicas form) = Integral n
                \<and> args request = [AbiString (addImageName form), AbiBigInt n]))"
proof -
  have w: "\<And>nm num s. Call_writeContractAsync request \<in> set (calls_of (addImage env nm num s))
      \<longrightarrow> (\<exists>n. num = Integral n \<and> args request = [AbiString nm, AbiBigInt n])"
  proof -
    fix nm num s
    show "Call_writeContractAsync request \<in> set (calls_of (addImage env nm num s))
      \<longrightarrow> (\<exists>n. num = Integral n \<and> args request = [AbiString nm, AbiBigInt n])"
      by (cases num)
        (auto simp: addImage_def addImage_catch_def Let_def split: option.splits sum.splits)
  qed
  have nw: "writes_of (calls_of (addImage env imageName (NonIntegral printed) st)) = []"
    by (auto simp: addImage_def addImage_catch_def Let_def writes_of_def
        split: option.splits sum.splits)
  have h: "handleAddImage parseInt env form st = Some invocation
        \<and> Call_writeContractAsync request \<in> set (calls_of invocation)
      \<longrightarrow> addImageName form \<noteq> [] \<and> addImageReplicas form \<noteq> []
          \<and> (\<exists>n. parseInt (addImageReplicas form) = Integral n
                \<and> args request = [AbiString (addImageName form), AbiBigInt n])"
    using w [of "addImageName form" "parseInt (addImageReplicas form)" st]
    by (auto simp: handleAddImage_def split: if_splits)
  from w [of imageName numReplicas st] nw h show ?thesis by blast
qed


theorem add_arguments_as_coerced_witness:
  "handleAddImage (\<lambda>digits. if digits = ''3'' then Integral 3 else NonIntegral ''NaN'')
       demo_env demo_form initial_state
     = Some (addImage demo_env ''nginx'' (Integral 3) initial_state)
   \<and> Call_writeContractAsync
        \<lparr>to_address = address demo_contract, with_abi = abi demo_contract,
         functionName = ''addImage'', args = [AbiString ''nginx'', AbiBigInt 3]\<rparr>
       \<in> set (calls_of (addImage demo_env ''nginx'' (Integral 3) initial_state))
   \<and> (\<exists>n. Integral 3 = Integral n
         \<and> args \<lparr>to_address = address demo_contract, with_abi = abi demo_contract,
                  functionName = ''addImage'', args = [AbiString ''nginx'', AbiBigInt 3]\<rparr>
             = [AbiString ''nginx'', AbiBigInt n])
   \<and> (addImageName demo_form \<noteq> [] \<and> addImageReplicas demo_form \<noteq> []
      \<and> (\<exists>n. (if addImageReplicas demo_form = ''3'' then Integral 3 else NonIntegral ''NaN'')
              = Integral n
         \<and> args \<lparr>to_address = address demo_contract, with_abi = abi demo_contract,
                  functionName = ''addImage'', args = [AbiString ''nginx'', AbiBigInt 3]\<rparr>
             = [AbiString (addImageName demo_form), AbiBigInt n]))"
proof -
  have h: "handleAddImage (\<lambda>digits. if digits = ''3'' then Integral 3 else NonIntegral ''NaN'')
       demo_env demo_form initial_state
     = Some (addImage demo_env ''nginx'' (Integral 3) initial_state)"
    by (simp add: handleAddImage_def demo_form_def)
  have c: "Call_writeContractAsync
        \<lparr>to_address = address demo_contract, with_abi = abi demo_contract,
         functionName = ''addImage'', args = [AbiString ''nginx'', AbiBigInt 3]\<rparr>
       \<in> set (calls_of (addImage demo_env ''nginx'' (Integral 3) initial_state))"
    by (simp add: addImage_available [OF demo_env_available])
  note t = add_arguments_as_coerced
    [where parseInt = "\<lambda>digits. if digits = ''3'' then Integral 3 else NonIntegral ''NaN''"
       and env = demo_env and form = demo_form and st = initial_state
       and imageName = "''nginx''" and numReplicas = "Integral 3"
       and invocation = "addImage demo_env ''nginx'' (Integral 3) initial_state"
       and request = "\<lparr>to_address = address demo_contract, with_abi = abi demo_contract,
         functionName = ''addImage'', args = [AbiString ''nginx'', AbiBigInt 3]\<rparr>"]
  note w = t [THEN conjunct1, THEN mp, OF c]
  note d = t [THEN conjunct2, THEN conjunct2, THEN mp, OF conjI, OF h c]
  note d1 = d [THEN conjunct1] and d2 = d [THEN conjunct2, THEN conjunct1]
    and d3 = d [THEN conjunct2, THEN conjunct2]
  show ?thesis
    by (intro conjI) (fact h c w d1 d2 d3)+
qed

section \<open>Zero and unknown counts\<close>

text \<open>
  Claim C9: when the count of a collection is zero or undefined, or the contract or the
  provider is unresolved, the pass returns at its guard: it makes no call and the state
  of the hook, the published list included, is what it was. A count of zero and an
  undefined count give the same run.
\<close>

theorem zero_or_unknown_count_fetches_nothing:
  "(canteenContract env = None \<or> membersCount env = None \<or> membersCount env = Some 0
      \<or> ethersReadonlyProvider env = None \<longrightarrow>
      fetchMembers env methers = NoFetch
      \<and> calls_made (fetchMembers env methers) = []
      \<and> complete_fetchMembers (start_fetchMembers env methers started) st = st)
   \<and> (canteenContract env = None \<or> imagesCount env = None \<or> imagesCount env = Some 0
      \<or> ethersReadonlyProvider env = None \<longrightarrow>
      fetchImages env iethers = NoFetch
      \<and> calls_made (fetchImages env iethers) = []
      \<and> complete_fetchImages (start_fetchImages env iethers started) st = st)
   \<and> fetchMembers (env\<lparr>membersCount := None\<rparr>) methers
       = fetchMembers (env\<lparr>membersCount := Some 0\<rparr>) methers
   \<and> fetchImages (env\<lparr>imagesCount := None\<rparr>) iethers
       = fetchImages (env\<lparr>imagesCount := Some 0\<rparr>) iethers"
  by (auto simp: fetchMembers_def fetchImages_def complete_fetchMembers_def
      complete_fetchImages_def start_fetchMembers_def start_fetchImages_def)

theorem zero_or_unknown_count_fetches_nothing_witness:
  "membersCount unresolved_env = Some 0 \<and> imagesCount unresolved_env = None
   \<and> fetchMembers unresolved_env (Some demo_members) = NoFetch
   \<and> calls_made (fetchMembers unresolved_env (Some demo_members)) = []
   \<and> complete_fetchMembers
        (start_fetchMembers unresolved_env (Some demo_members) published_state)
        published_state = published_state
   \<and> fetchImages unresolved_env (Some demo_images) = NoFetch
   \<and> calls_made (fetchImages unresolved_env (Some demo_images)) = []
   \<and> complete_fetchImages
        (start_fetchImages unresolved_env (Some demo_images) published_state)
        published_state = published_state
   \<and> members published_state = [''node-a'', ''node-c'']"
proof -
  have hm: "membersCount unresolved_env = Some 0" by (simp add: unresolved_env_def)
  have hi: "imagesCount unresolved_env = None" by (simp add: unresolved_env_def)
  have m: "members published_state = [''node-a'', ''node-c'']"
    by (simp add: published_state_def complete_fetchImages_def complete_fetchMembers_def
        start_fetchImages_def start_fetchMembers_def demo_members_run demo_images_run)
  note t = zero_or_unknown_count_fetches_nothing
    [where env = unresolved_env and methers = "Some demo_members"
       and iethers = "Some demo_images"
       and started = published_state and st = published_state]
  from hm t have a: "fetchMembers unresolved_env (Some demo_members) = NoFetch
      \<and> calls_made (fetchMembers unresolved_env (Some demo_members)) = []
      \<and> complete_fetchMembers
           (start_fetchMembers unresolved_env (Some demo_members) published_state)
           published_state = published_state"
    by blast
  from hi t have b: "fetchImages unresolved_env (Some demo_images) = NoFetch
      \<and> calls_made (fetchImages unresolved_env (Some demo_images)) = []
      \<and> complete_fetchImages
           (start_fetchImages unresolved_env (Some demo_images) published_state)
           published_state = published_state"
    by blast
  from hm hi a b m show ?thesis by simp
qed

section \<open>Rejections of the promise of a mutation\<close>

text \<open>
  The promise of \<open>addImage\<close> and of \<open>removeImage\<close> resolves, as claim C10 says, when
  the call returns before the write, when the write succeeds, when the write fails with
  an error object, and when \<open>BigInt\<close> throws on a replica count that is not integral;
  in the failing cases the error is reported in the message.
\<close>

lemma mutations_resolve_on_error_objects:
  "(addImage env imageName numReplicas st = Settled st' calls outcome
      \<longrightarrow> outcome = Resolved Undefined)
   \<and> (removeImage env imageName st = Settled st' calls outcome
      \<longrightarrow> outcome = Resolved Undefined)
   \<and> snd (snd (addImage_resume (Inr tx) st)) = Resolved Undefined
   \<and> snd (snd (addImage_resume (Inl (ErrorObject m)) st)) = Resolved Undefined
   \<and> snd (snd (removeImage_resume (Inr tx) st)) = Resolved Undefined
   \<and> snd (snd (removeImage_resume (Inl (ErrorObject m)) st)) = Resolved Undefined
   \<and> (canteenContract env \<noteq> None \<and> writeContractAsync env \<longrightarrow>
        addImage env imageName (NonIntegral printed) st =
          Settled
            (st\<lparr>isProcessing := False,
                message := ''Error: ''
                  @ (if printed = [] then ''Failed to add image'' else printed)\<rparr>)
            [Console_error ''Error adding image:''] (Resolved Undefined))
   \<and> message (fst (addImage_resume (Inl (ErrorObject m)) st))
       = ''Error: '' @ (case m of None \<Rightarrow> ''Failed to add image''
                       | Some t \<Rightarrow> if t = [] then ''Failed to add image'' else t)
   \<and> message (fst (removeImage_resume (Inl (ErrorObject m)) st))
       = ''Error: '' @ (case m of None \<Rightarrow> ''Failed to remove image''
                       | Some t \<Rightarrow> if t = [] then ''Failed to remove image'' else t)"
proof -
  have a: "addImage env imageName numReplicas st = Settled st' calls outcome
      \<longrightarrow> outcome = Resolved Undefined"
    by (cases numReplicas)
      (auto simp: addImage_def addImage_catch_def Let_def split: option.splits if_splits)
  have r: "removeImage env imageName st = Settled st' calls outcome
      \<longrightarrow> outcome = Resolved Undefined"
    by (auto simp: removeImage_def split: option.splits if_splits)
  have ar: "addImage_resume (Inl (ErrorObject m)) st =
      (setIsProcessing False
         (setMessage (''Error: '' @ (case m of None \<Rightarrow> ''Failed to add image''
                       | Some t \<Rightarrow> if t = [] then ''Failed to add image'' else t)) st),
       [Console_error ''Error adding image:''], Resolved Undefined)"
    by (cases m) (simp_all add: addImage_resume_def addImage_catch_def)
  have rr: "removeImage_resume (Inl (ErrorObject m)) st =
      (setIsProcessing False
         (setMessage (''Error: '' @ (case m of None \<Rightarrow> ''Failed to remove image''
                       | Some t \<Rightarrow> if t = [] then ''Failed to remove image'' else t)) st),
       [Console_error ''Error removing image:''], Resolved Undefined)"
    by (cases m) (simp_all add: removeImage_resume_def removeImage_catch_def)
  have n: "canteenContract env \<noteq> None \<and> writeContractAsync env \<longrightarrow>
        addImage env imageName (NonIntegral printed) st =
          Settled
            (st\<lparr>isProcessing := False,
                message := ''Error: ''
                  @ (if printed = [] then ''Failed to add image'' else printed)\<rparr>)
            [Console_error ''Error adding image:''] (Resolved Undefined)"
    using addImage_not_integral [of env _ imageName printed st] by auto
  have s1: "snd (snd (addImage_resume (Inr tx) st)) = Resolved Undefined"
    by (simp add: addImage_resume_def)
  have s2: "snd (snd (removeImage_resume (Inr tx) st)) = Resolved Undefined"
    by (simp add: removeImage_resume_def)
  have m1: "message (fst (addImage_resume (Inl (ErrorObject m)) st))
       = ''Error: '' @ (case m of None \<Rightarrow> ''Failed to add image''
                       | Some t \<Rightarrow> if t = [] then ''Failed to add image'' else t)"
    by (simp add: ar setMessage_def setIsProcessing_def)
  have m2: "message (fst (removeImage_resume (Inl (ErrorObject m)) st))
       = ''Error: '' @ (case m of None \<Rightarrow> ''Failed to remove image''
                       | Some t \<Rightarrow> if t = [] then ''Failed to remove image'' else t)"
    by (simp add: rr setMessage_def setIsProcessing_def)
  have s3: "snd (snd (addImage_resume (Inl (ErrorObject m)) st)) = Resolved Undefined"
    by (simp add: ar)
  have s4: "snd (snd (removeImage_resume (Inl (ErrorObject m)) st)) = Resolved Undefined"
    by (simp add: rr)
  from a r s1 s3 s2 s4 n m1 m2 show ?thesis by (intro conjI)
qed

text \<open>
  Claim C10 at a write that rejects with \<open>null\<close>: the claim has the promise of the
  mutation settle without rejecting. Reading \<open>error.message\<close> in the \<open>catch\<close> block
  throws a \<open>TypeError\<close>; the \<open>finally\<close> block runs, and the promise of
  \<open>addImage\<close>, as that of \<open>removeImage\<close>, rejects with the \<open>TypeError\<close>.
\<close>

theorem null_rejection_rejects_the_promise:
  "snd (snd (addImage_resume (Inl null_rejection) pending_state))
     = Rejected (ErrorObject (Some ''Cannot read properties of null''))
   \<and> snd (snd (removeImage_resume (Inl null_rejection) pending_state))
     = Rejected (ErrorObject (Some ''Cannot read properties of null''))
   \<and> snd (snd (addImage_resume (Inl null_rejection) pending_state)) \<noteq> Resolved Undefined"
  by (simp add: addImage_resume_def removeImage_resume_def addImage_catch_def
      removeImage_catch_def null_rejection_def)

end
